theory Spec2Isabelle
  imports Main "HOL-Library.Word" "HOL-Library.DAList"
begin

section \<open>Go values used by the agent\<close>

subsection \<open>Time\<close>

text \<open>
  A \<open>time.Time\<close> is modelled as an instant in nanoseconds (an unbounded integer), a
  \<open>time.Duration\<close> as an integer number of nanoseconds. Every call of \<open>time.Now()\<close>
  in the source becomes an explicit argument carrying the reading that call returned.
\<close>

type_synonym time = int
type_synonym duration = int

definition minDuration :: duration where
  "minDuration = - (2 ^ 63)"

definition maxDuration :: duration where
  "maxDuration = 2 ^ 63 - 1"

text \<open>
  \<open>Time.Sub\<close> of the Go library: the difference of two instants, saturated at the least and
  the greatest value of the 64-bit \<open>Duration\<close>.
\<close>

definition time_Sub :: "time \<Rightarrow> time \<Rightarrow> duration" where
  "time_Sub t u =
     (let d = t - u
      in if maxDuration < d then maxDuration
         else if d < minDuration then minDuration
         else d)"

definition Minute :: duration where
  "Minute = 60 * 1000000000"

subsection \<open>Maps\<close>

text \<open>
  A Go map is a finite table with one value per key: an association list with distinct
  keys (\<^typ>\<open>('k, 'v) alist\<close>). The order of the list stands for the unspecified order
  in which Go iterates over a map.
\<close>

definition map_values :: "('k, 'v) alist \<Rightarrow> 'v list" where
  "map_values m = map snd (DAList.impl_of m)"

definition map_len :: "('k, 'v) alist \<Rightarrow> nat" where
  "map_len m = length (DAList.impl_of m)"

subsection \<open>Printing integers with \<open>%d\<close>\<close>

definition digit_char :: "nat \<Rightarrow> char" where
  "digit_char d = ''0123456789'' ! d"

fun dec :: "nat \<Rightarrow> string" where
  "dec n = (if n < 10 then [digit_char n] else dec (n div 10) @ [digit_char (n mod 10)])"

declare dec.simps [simp del]

definition show_int :: "int \<Rightarrow> string" where
  "show_int i = (if i < 0 then CHR ''-'' # dec (nat (- i)) else dec (nat i))"

section \<open>The peer registry (package \<open>peers\<close>)\<close>

record Peer =
  ID :: string
  Name :: string
  Address :: string
  Port :: int
  RepoHash :: string
  Branch :: string
  ActiveFile :: string
  Status :: string
  LastSeen :: time
  Trusted :: bool

text \<open>
  The registry's only field besides its lock is the map from peer identifier to peer.
  Every method holds the lock for its whole body, so a method is one step on the map.
\<close>

type_synonym Registry = "(string, Peer) alist"

definition NewRegistry :: Registry where
  "NewRegistry = DAList.empty"

text \<open>
  \<open>Add\<close>: the first argument is the reading of \<open>time.Now()\<close> taken inside the method. The
  method overwrites the \<open>LastSeen\<close> field of the peer it was given and stores that peer.
\<close>

definition Add :: "time \<Rightarrow> Peer \<Rightarrow> Registry \<Rightarrow> Registry" where
  "Add now peer r = DAList.update (Peer.ID peer) (peer\<lparr>LastSeen := now\<rparr>) r"

definition Registry_Get :: "Registry \<Rightarrow> string \<Rightarrow> Peer option" where
  "Registry_Get r pid = DAList.lookup r pid"

definition Registry_GetAll :: "Registry \<Rightarrow> Peer list" where
  "Registry_GetAll r = map_values r"

definition Remove :: "string \<Rightarrow> Registry \<Rightarrow> Registry" where
  "Remove pid r = DAList.delete pid r"

text \<open>
  \<open>Cleanup\<close>: one reading of the clock, then a loop over the entries of the map that
  deletes the key of every entry whose \<open>now.Sub(peer.LastSeen)\<close> is greater than the timeout.
  A Go \<open>range\<close> loop that deletes only the entry it is visiting visits every entry once.
\<close>

definition Cleanup_step :: "time \<Rightarrow> duration \<Rightarrow> string \<times> Peer \<Rightarrow> Registry \<Rightarrow> Registry" where
  "Cleanup_step now timeout e r =
     (if timeout < time_Sub now (LastSeen (snd e)) then DAList.delete (fst e) r else r)"

definition Cleanup :: "time \<Rightarrow> duration \<Rightarrow> Registry \<Rightarrow> Registry" where
  "Cleanup now timeout r = fold (Cleanup_step now timeout) (DAList.impl_of r) r"

definition Registry_Count :: "Registry \<Rightarrow> nat" where
  "Registry_Count r = map_len r"

section \<open>Discovery (package \<open>discovery\<close>)\<close>

text \<open>
  A \<open>zeroconf.ServiceEntry\<close>, with the fields the agent reads. The code uses an address only
  through \<open>String()\<close>, so an address is its printed form.
\<close>

record ServiceEntry =
  Instance :: string
  Port :: int
  Text :: "string list"
  AddrIPv4 :: "string list"
  AddrIPv6 :: "string list"

text \<open>
  The fields of \<open>Service\<close> that the discovery loop reads or writes. The two address tables
  are Go maps to the empty struct, that is, sets of strings.
\<close>

record Service =
  deviceName :: string
  port :: int
  broadcasting :: bool
  localIPv4 :: "string set"
  localIPv6 :: "string set"

text \<open>
  What \<open>updateLocalAddrs\<close> observes of the operating system: for each interface whether it
  is up and the result of \<open>Addrs()\<close> (\<open>None\<close> for an error); for each address its dynamic
  type and its IP (\<open>None\<close> for \<open>nil\<close>); for each IP the results of the four methods the
  code calls, \<open>To4\<close> and \<open>To16\<close> already printed with \<open>String()\<close>.
\<close>

record IP =
  IsLoopback :: bool
  IsUnspecified :: bool
  To4 :: "string option"
  To16 :: "string option"

datatype Addr = IPNet "IP option" | IPAddr "IP option" | OtherAddr

record Interface =
  FlagUp :: bool
  Addrs :: "Addr list option"

definition addIP :: "IP option \<Rightarrow> string set \<times> string set \<Rightarrow> string set \<times> string set" where
  "addIP ip acc =
     (case ip of
        None \<Rightarrow> acc
      | Some a \<Rightarrow>
          if IsLoopback a \<or> IsUnspecified a then acc
          else (case To4 a of
                  Some v4 \<Rightarrow> (insert v4 (fst acc), snd acc)
                | None \<Rightarrow>
                    (case To16 a of
                       Some v6 \<Rightarrow> (fst acc, insert v6 (snd acc))
                     | None \<Rightarrow> acc)))"

fun addAddr :: "Addr \<Rightarrow> string set \<times> string set \<Rightarrow> string set \<times> string set" where
  "addAddr (IPNet ip) acc = addIP ip acc"
| "addAddr (IPAddr ip) acc = addIP ip acc"
| "addAddr OtherAddr acc = acc"

definition addInterface :: "Interface \<Rightarrow> string set \<times> string set \<Rightarrow> string set \<times> string set" where
  "addInterface iface acc =
     (if \<not> FlagUp iface then acc
      else (case Addrs iface of
              None \<Rightarrow> acc
            | Some addrs \<Rightarrow> fold addAddr addrs acc))"

text \<open>\<open>updateLocalAddrs\<close>: the argument is the result of \<open>net.Interfaces()\<close>, \<open>None\<close> for an
  error, in which case the method returns before it touches the service.\<close>

definition updateLocalAddrs :: "Interface list option \<Rightarrow> Service \<Rightarrow> Service" where
  "updateLocalAddrs ifaces s =
     (case ifaces of
        None \<Rightarrow> s
      | Some is \<Rightarrow>
          (let acc = fold addInterface is ({}, {})
           in s\<lparr>localIPv4 := fst acc, localIPv6 := snd acc\<rparr>))"

text \<open>\<open>isSelf\<close>: the entry is a pointer, \<open>None\<close> is \<open>nil\<close>.\<close>

definition isSelf :: "Service \<Rightarrow> ServiceEntry option \<Rightarrow> bool" where
  "isSelf s entry =
     (case entry of
        None \<Rightarrow> False
      | Some e \<Rightarrow>
          if ServiceEntry.Port e \<noteq> port s \<or> Instance e \<noteq> deviceName s then False
          else if list_ex (\<lambda>addr. addr \<in> localIPv4 s) (AddrIPv4 e) then True
          else if list_ex (\<lambda>addr. addr \<in> localIPv6 s) (AddrIPv6 e) then True
          else False)"

text \<open>
  \<open>parseTXT\<close>. \<open>strings.TrimSpace\<close> belongs to the Go library and is a parameter of the
  model. The resulting Go map is only ever indexed, and indexing a missing key gives the
  empty string (\<open>txt_get\<close>).
\<close>

definition IndexByte :: "string \<Rightarrow> char \<Rightarrow> nat option" where
  "IndexByte s c = (if c \<in> set s then Some (length (takeWhile (\<lambda>x. x \<noteq> c) s)) else None)"

definition parseTXT_step :: "(string \<Rightarrow> string) \<Rightarrow> string \<Rightarrow> (string \<rightharpoonup> string) \<Rightarrow> (string \<rightharpoonup> string)" where
  "parseTXT_step TrimSpace record values =
     (if record = [] then values
      else (case IndexByte record CHR ''='' of
              Some eq \<Rightarrow>
                (let key = TrimSpace (take eq record);
                     val = TrimSpace (drop (eq + 1) record)
                 in if key \<noteq> [] then values(key \<mapsto> val) else values)
            | None \<Rightarrow> values(TrimSpace record \<mapsto> [])))"

definition parseTXT :: "(string \<Rightarrow> string) \<Rightarrow> string list \<Rightarrow> (string \<rightharpoonup> string)" where
  "parseTXT TrimSpace records = fold (parseTXT_step TrimSpace) records Map.empty"

definition txt_get :: "(string \<rightharpoonup> string) \<Rightarrow> string \<Rightarrow> string" where
  "txt_get txt k = (case txt k of None \<Rightarrow> [] | Some v \<Rightarrow> v)"

text \<open>\<open>buildPeer\<close>: the second argument is its reading of \<open>time.Now()\<close>; \<open>None\<close> is \<open>nil\<close>.\<close>

definition buildPeer :: "(string \<Rightarrow> string) \<Rightarrow> time \<Rightarrow> ServiceEntry option \<Rightarrow> Peer option" where
  "buildPeer TrimSpace now entry =
     (case entry of
        None \<Rightarrow> None
      | Some e \<Rightarrow>
          (case (if 0 < length (AddrIPv4 e) then Some (hd (AddrIPv4 e))
                 else if 0 < length (AddrIPv6 e) then Some (hd (AddrIPv6 e))
                 else None) of
             None \<Rightarrow> None
           | Some address \<Rightarrow>
               (let pid = Instance e @ ''@'' @ address @ '':'' @ show_int (ServiceEntry.Port e);
                    txt = parseTXT TrimSpace (Text e);
                    status = (case txt ''status'' of
                                Some v \<Rightarrow> if v \<noteq> [] then v else ''idle''
                              | None \<Rightarrow> ''idle'')
                in Some \<lparr>Peer.ID = pid, Name = Instance e, Address = address,
                         Peer.Port = ServiceEntry.Port e,
                         RepoHash = txt_get txt ''repoHash'', Branch = txt_get txt ''branch'',
                         ActiveFile = txt_get txt ''activeFile'', Status = status,
                         LastSeen = now, Trusted = (txt_get txt ''trusted'' = ''true'')\<rparr>)))"

text \<open>
  The goroutine of \<open>startDiscovery\<close> that consumes the entries of one browse: the list is
  the entries that this goroutine receives from the channel, in order. Each entry comes
  with the two clock readings taken while it is handled: the one of \<open>buildPeer\<close> and the
  one of \<open>Registry.Add\<close>.
\<close>

definition consumeEntry ::
  "(string \<Rightarrow> string) \<Rightarrow> Service \<Rightarrow> ServiceEntry option \<times> time \<times> time \<Rightarrow> Registry \<Rightarrow> Registry" where
  "consumeEntry TrimSpace s a r =
     (if isSelf s (fst a) then r
      else (case buildPeer TrimSpace (fst (snd a)) (fst a) of
              Some peer \<Rightarrow> Add (snd (snd a)) peer r
            | None \<Rightarrow> r))"

definition consumeEntries ::
  "(string \<Rightarrow> string) \<Rightarrow> Service \<Rightarrow> (ServiceEntry option \<times> time \<times> time) list \<Rightarrow> Registry \<Rightarrow> Registry" where
  "consumeEntries TrimSpace s entries r = fold (consumeEntry TrimSpace s) entries r"

text \<open>
  One turn of the discovery loop: refresh the local addresses, consume the entries of the
  browse, then clean up with a timeout of five minutes (the last argument but one is the
  clock reading of \<open>Cleanup\<close>).
\<close>

definition discoveryCycle ::
  "(string \<Rightarrow> string) \<Rightarrow> Interface list option \<Rightarrow> (ServiceEntry option \<times> time \<times> time) list \<Rightarrow>
   time \<Rightarrow> Service \<times> Registry \<Rightarrow> Service \<times> Registry" where
  "discoveryCycle TrimSpace ifaces entries tCleanup sr =
     (let s = updateLocalAddrs ifaces (fst sr);
          r = consumeEntries TrimSpace s entries (snd sr)
      in (s, Cleanup tCleanup (5 * Minute) r))"

section \<open>Sessions (package \<open>sessions\<close>)\<close>

record Session =
  ID :: string
  FilePath :: string
  Participants :: "string list"
  Initiator :: string
  CreatedAt :: time

text \<open>
  The manager's only field besides its lock is the map from session identifier to session.
  Every method holds the lock for its whole body, so a method is one atomic step on the map.
  The Go map holds pointers to sessions; the model holds the sessions themselves, and a
  method that changes a session through its pointer stores the changed session.
\<close>

type_synonym Manager = "(string, Session) alist"

definition NewManager :: Manager where
  "NewManager = DAList.empty"

text \<open>
  \<open>Create\<close>: the first argument is the reading of \<open>time.Now()\<close> stored in \<open>CreatedAt\<close>. The
  result is the session returned and the manager afterwards.
\<close>

definition Create :: "time \<Rightarrow> string \<Rightarrow> string \<Rightarrow> string \<Rightarrow> Manager \<Rightarrow> Session \<times> Manager" where
  "Create now sid filePath initiator m =
     (let session = \<lparr>Session.ID = sid, FilePath = filePath, Participants = [initiator],
                      Initiator = initiator, CreatedAt = now\<rparr>
      in (session, DAList.update sid session m))"

definition Get :: "Manager \<Rightarrow> string \<Rightarrow> Session option" where
  "Get m sid = DAList.lookup m sid"

text \<open>\<open>AddParticipant\<close>: the boolean is the method's result.\<close>

definition AddParticipant :: "string \<Rightarrow> string \<Rightarrow> Manager \<Rightarrow> bool \<times> Manager" where
  "AddParticipant sessionID participantID m =
     (case DAList.lookup m sessionID of
        None \<Rightarrow> (False, m)
      | Some session \<Rightarrow>
          if list_ex (\<lambda>p. p = participantID) (Participants session) then (True, m)
          else (True, DAList.update sessionID
                  (session\<lparr>Participants := Participants session @ [participantID]\<rparr>) m))"

text \<open>
  \<open>RemoveParticipant\<close> has no result. Its loop cuts the first occurrence of the participant
  out of the list and stops (\<open>break\<close>), which is \<^const>\<open>remove1\<close>; the session is then
  deleted when the list has become empty.
\<close>

definition RemoveParticipant :: "string \<Rightarrow> string \<Rightarrow> Manager \<Rightarrow> Manager" where
  "RemoveParticipant sessionID participantID m =
     (case DAList.lookup m sessionID of
        None \<Rightarrow> m
      | Some session \<Rightarrow>
          (let session' = session\<lparr>Participants := remove1 participantID (Participants session)\<rparr>
           in if length (Participants session') = 0 then DAList.delete sessionID m
              else DAList.update sessionID session' m))"

definition GetAll :: "Manager \<Rightarrow> Session list" where
  "GetAll m = map_values m"

definition Count :: "Manager \<Rightarrow> nat" where
  "Count m = map_len m"

section \<open>The HTTP handlers of the sessions (package \<open>server\<close>)\<close>

text \<open>
  A response is its status code and its body: the text given to \<open>http.Error\<close>, or the
  fields of the JSON object that the handler encodes. A request body that does not decode
  is \<open>None\<close>.
\<close>

datatype body = ErrorText string | Json "(string \<times> string) list"

datatype response = Response (status: nat) (content: body)

definition StatusOK :: nat where "StatusOK = 200"
definition StatusBadRequest :: nat where "StatusBadRequest = 400"
definition StatusNotFound :: nat where "StatusNotFound = 404"

text \<open>What a client reads from a field of a JSON response.\<close>

fun json_field :: "string \<Rightarrow> response \<Rightarrow> string option" where
  "json_field k (Response _ (Json kvs)) = map_of kvs k"
| "json_field k (Response _ (ErrorText _)) = None"

text \<open>
  \<open>handleSessionCreate\<close>. \<open>unixNano\<close> is the value of \<open>time.Now().UnixNano()\<close>, a signed
  64-bit integer, from which the identifier is printed; \<open>now\<close> is the later reading inside
  \<open>Create\<close>. The request carries the file path and the initiator.
\<close>

definition handleSessionCreate ::
  "int \<Rightarrow> 64 word \<Rightarrow> time \<Rightarrow> (string \<times> string) option \<Rightarrow> Manager \<Rightarrow> response \<times> Manager" where
  "handleSessionCreate httpPort unixNano now req m =
     (case req of
        None \<Rightarrow> (Response StatusBadRequest (ErrorText ''Invalid request''), m)
      | Some (filePath, initiator) \<Rightarrow>
          (let sessionID = ''session-'' @ show_int (sint unixNano);
               (session, m') = Create now sessionID filePath initiator m
           in (Response StatusOK
                 (Json [(''sessionId'', Session.ID session),
                        (''filePath'', FilePath session),
                        (''wsUrl'', ''ws://localhost:'' @ show_int httpPort @ ''/ws/sync/''
                                     @ Session.ID session)]),
               m')))"

text \<open>\<open>handleSessionJoin\<close> and \<open>handleSessionLeave\<close>: the request carries the session
  identifier and the participant identifier.\<close>

definition handleSessionJoin :: "(string \<times> string) option \<Rightarrow> Manager \<Rightarrow> response \<times> Manager" where
  "handleSessionJoin req m =
     (case req of
        None \<Rightarrow> (Response StatusBadRequest (ErrorText ''Invalid request''), m)
      | Some (sessionID, participantID) \<Rightarrow>
          (let (ok, m') = AddParticipant sessionID participantID m
           in if \<not> ok then (Response StatusNotFound (ErrorText ''Session not found''), m')
              else (Response StatusOK (Json [(''status'', ''joined'')]), m')))"

definition handleSessionLeave :: "(string \<times> string) option \<Rightarrow> Manager \<Rightarrow> response \<times> Manager" where
  "handleSessionLeave req m =
     (case req of
        None \<Rightarrow> (Response StatusBadRequest (ErrorText ''Invalid request''), m)
      | Some (sessionID, participantID) \<Rightarrow>
          (let m' = RemoveParticipant sessionID participantID m
           in (Response StatusOK (Json [(''status'', ''left'')]), m')))"

section \<open>The synchronisation socket (\<open>handleYjsSync\<close>)\<close>

text \<open>
  A connection is named by a number. What a connection's handler meets after the upgrade is
  a script of events: \<open>ReadMessage\<close> returns a frame (its message type and its bytes) or an
  error; with a frame comes the outcome of the \<open>WriteMessage\<close> that the handler performs
  next (\<open>True\<close> when it succeeds). The handler's effect is the list of frames it has written
  with success, each with the connection it wrote to.
\<close>

type_synonym conn = nat
type_synonym payload = "8 word list"

datatype conn_event = Frame int payload bool | ReadError

type_synonym delivery = "conn \<times> int \<times> payload"

fun relay_loop :: "conn \<Rightarrow> conn_event list \<Rightarrow> delivery list" where
  "relay_loop c [] = []"
| "relay_loop c (ReadError # es) = []"
| "relay_loop c (Frame messageType message written # es) =
     (if written then (c, messageType, message) # relay_loop c es else [])"

text \<open>
  \<open>handleYjsSync\<close> for the connection \<open>c\<close> opened on \<open>/ws/sync/{sessionId}\<close>: not found when
  the session does not exist, nothing when the upgrade fails, else the read loop.
\<close>

definition handleYjsSync ::
  "Manager \<Rightarrow> string \<Rightarrow> bool \<Rightarrow> conn \<Rightarrow> conn_event list \<Rightarrow> response + delivery list" where
  "handleYjsSync m sessionID upgraded c events =
     (case Get m sessionID of
        None \<Rightarrow> Inl (Response StatusNotFound (ErrorText ''Session not found''))
      | Some session \<Rightarrow> if \<not> upgraded then Inr [] else Inr (relay_loop c events))"

text \<open>The payloads that the connection \<open>c\<close> receives from a list of deliveries.\<close>

definition received :: "conn \<Rightarrow> delivery list \<Rightarrow> payload list" where
  "received c ds = map (\<lambda>d. snd (snd d)) (filter (\<lambda>d. fst d = c) ds)"

section \<open>Presence in the editor extension (\<open>PresenceManager\<close>)\<close>

text \<open>
  The status is one of the strings \<open>'editing'\<close>, \<open>'idle'\<close> and \<open>'away'\<close>. Times are the
  integer milliseconds of \<open>Date.now()\<close>.
\<close>

datatype PeerStatus = Editing | Idle | Away

record PresenceManager =
  currentFile :: "string option"
  currentCursor :: "(int \<times> int) option"
  currentStatus :: PeerStatus
  lastActivity :: int

definition idleThreshold :: int where
  "idleThreshold = 30000"

definition awayThreshold :: int where
  "awayThreshold = 300000"

text \<open>\<open>updateStatus\<close>: the first argument is the reading of \<open>Date.now()\<close>.\<close>

definition updateStatus :: "int \<Rightarrow> PresenceManager \<Rightarrow> PresenceManager" where
  "updateStatus now pm =
     (let timeSinceActivity = now - lastActivity pm
      in if timeSinceActivity > awayThreshold then pm\<lparr>currentStatus := Away\<rparr>
         else if timeSinceActivity > idleThreshold then pm\<lparr>currentStatus := Idle\<rparr>
         else pm\<lparr>currentStatus := Editing\<rparr>)"

text \<open>
  A history of the manager: the calls of the three methods that change the map, in the
  order in which they held the lock, on a manager that starts as \<open>NewManager\<close>. No other
  code of the agent writes to the map or to a stored session.
\<close>

datatype call =
  CallCreate time string string string
| CallAddParticipant string string
| CallRemoveParticipant string string

fun perform :: "call \<Rightarrow> Manager \<Rightarrow> Manager" where
  "perform (CallCreate now sid filePath initiator) m = snd (Create now sid filePath initiator m)"
| "perform (CallAddParticipant sid pid) m = snd (AddParticipant sid pid m)"
| "perform (CallRemoveParticipant sid pid) m = RemoveParticipant sid pid m"

definition after :: "call list \<Rightarrow> Manager" where
  "after calls = fold perform calls NewManager"

subsection \<open>The manager with its sessions behind pointers\<close>

text \<open>
  \<open>Get\<close> and \<open>GetAll\<close> return pointers to the stored \<open>Session\<close> structs, and
  \<open>AddParticipant\<close> and \<open>RemoveParticipant\<close> write to the struct behind the pointer. Where it
  matters who else holds such a pointer, the manager is modelled with an explicit store:
  the map holds addresses, \<open>objects\<close> gives the struct at each address (the zero value of
  \<open>Session\<close> where nothing has been allocated yet), and \<open>allocated\<close> is the number of structs
  allocated so far, the address of the next one.
\<close>

type_synonym addr = nat














subsection \<open>The debugging handler that adds a peer\<close>

text \<open>
  \<open>handleAddMockPeer\<close> builds a fixed peer whose \<open>LastSeen\<close> is the handler's own reading of
  the clock and gives it to \<open>Registry.Add\<close>, which reads the clock again.
\<close>

definition mockPeer :: "time \<Rightarrow> Peer" where
  "mockPeer now =
     \<lparr>Peer.ID = ''mock-peer-1'', Name = ''Alice'' @ [CHR 0x27] @ ''s Laptop'',
      Address = ''10.0.0.5'', Peer.Port = 8080, RepoHash = ''abc123'',
      Branch = ''feat/auth'', ActiveFile = ''src/components/Login.tsx'',
      Status = ''editing'', LastSeen = now, Trusted = False\<rparr>"

definition handleAddMockPeer :: "time \<Rightarrow> time \<Rightarrow> Registry \<Rightarrow> Registry" where
  "handleAddMockPeer tHandler tAdd r = Add tAdd (mockPeer tHandler) r"

section \<open>Facts about the maps\<close>

lemma length_AList_update:
  "length (AList.update k v al) = (if k \<in> fst ` set al then length al else Suc (length al))"
  by (induction al) auto

lemma map_len_update:
  "map_len (DAList.update k v m) =
     (if DAList.lookup m k = None then Suc (map_len m) else map_len m)"
  by (simp add: map_len_def DAList.update.rep_eq DAList.lookup.rep_eq length_AList_update
      map_of_eq_None_iff)


section \<open>The session manager\<close>

lemma Get_Create:
  "Get (snd (Create now sid filePath initiator m)) k =
     (if k = sid then Some (fst (Create now sid filePath initiator m)) else Get m k)"
  by (simp add: Create_def Get_def Let_def)

lemma RemoveParticipant_unknown:
  "Get m sid = None \<Longrightarrow> RemoveParticipant sid pid m = m"
  by (simp add: RemoveParticipant_def Get_def)

text \<open>
  C10. \<open>Create\<close> has no failing branch: it always returns the new session, whose only
  participant is the initiator. Called with an identifier that the table already holds
  (with any session \<open>old\<close>), it stores the new session under that identifier; the table
  afterwards is the one that the same call gives when \<open>old\<close> was never stored, so nothing of
  the old session (participants, initiator, file path, creation time) is kept, and the
  number of sessions does not change. The HTTP handler answers 200 whatever the table holds.
\<close>

theorem Create_replaces_existing:
  "fst (Create now sid filePath initiator (DAList.update sid old m)) =
     \<lparr>Session.ID = sid, FilePath = filePath, Participants = [initiator],
      Initiator = initiator, CreatedAt = now\<rparr>
   \<and> Get (snd (Create now sid filePath initiator (DAList.update sid old m))) sid =
     Some \<lparr>Session.ID = sid, FilePath = filePath, Participants = [initiator],
           Initiator = initiator, CreatedAt = now\<rparr>
   \<and> snd (Create now sid filePath initiator (DAList.update sid old m)) =
     snd (Create now sid filePath initiator m)
   \<and> Count (snd (Create now sid filePath initiator (DAList.update sid old m))) =
     Count (DAList.update sid old m)
   \<and> status (fst (handleSessionCreate httpPort unixNano now (Some (filePath, initiator))
        (DAList.update (''session-'' @ show_int (sint unixNano)) old m))) = StatusOK"
  by (simp add: Create_def Get_def Count_def map_len_update Let_def handleSessionCreate_def)

text \<open>
  C4, as the code has it. \<open>RemoveParticipant\<close> returns nothing, and \<open>handleSessionLeave\<close>
  answers every decodable request the same way: for an identifier that the table does not
  hold, the table is left as it was and the caller receives status 200 with
  \<open>{"status": "left"}\<close>; no not-found error is reported.
\<close>

theorem leave_unknown_silent:
  "Get m sid = None \<Longrightarrow>
     handleSessionLeave (Some (sid, pid)) m =
       (Response StatusOK (Json [(''status'', ''left'')]), m)"
  by (simp add: handleSessionLeave_def RemoveParticipant_unknown Let_def)

theorem leave_unknown_silent_witness:
  "Get NewManager ''session-7'' = None \<and>
   handleSessionLeave (Some (''session-7'', ''bob'')) NewManager =
     (Response StatusOK (Json [(''status'', ''left'')]), NewManager)"
  using leave_unknown_silent [of NewManager "''session-7''" "''bob''"]
  by (simp add: Get_def NewManager_def)

text \<open>The claim as stated fails: leaving an unknown session is answered with 200, not 404.\<close>

theorem leave_unknown_counterexample:
  "Get NewManager ''session-7'' = None \<and>
   status (fst (handleSessionLeave (Some (''session-7'', ''bob'')) NewManager)) = StatusOK \<and>
   status (fst (handleSessionLeave (Some (''session-7'', ''bob'')) NewManager)) \<noteq> StatusNotFound"
  by (simp add: handleSessionLeave_def RemoveParticipant_def Get_def NewManager_def
      StatusOK_def StatusNotFound_def Let_def)

lemma Get_AddParticipant:
  "Get (snd (AddParticipant sid pid m)) k =
     (case Get m sid of
        None \<Rightarrow> Get m k
      | Some s \<Rightarrow>
          if pid \<in> set (Participants s) \<or> k \<noteq> sid then Get m k
          else Some (s\<lparr>Participants := Participants s @ [pid]\<rparr>))"
  by (auto simp: AddParticipant_def Get_def list_ex_iff split: option.splits)

lemma Get_RemoveParticipant:
  "Get (RemoveParticipant sid pid m) k =
     (case Get m sid of
        None \<Rightarrow> Get m k
      | Some s \<Rightarrow>
          if k \<noteq> sid then Get m k
          else if remove1 pid (Participants s) = [] then None
          else Some (s\<lparr>Participants := remove1 pid (Participants s)\<rparr>))"
  by (auto simp: RemoveParticipant_def Get_def Let_def split: option.splits)

lemma count_list_distinct:
  "distinct xs \<Longrightarrow> x \<in> set xs \<Longrightarrow> count_list xs x = 1"
  by (induction xs) (auto simp: count_list_0_iff)

lemma fst_Create:
  "fst (Create now sid filePath initiator m) =
     \<lparr>Session.ID = sid, FilePath = filePath, Participants = [initiator],
      Initiator = initiator, CreatedAt = now\<rparr>"
  by (simp add: Create_def Let_def)

lemma perform_inv:
  assumes "\<And>k s. Get m k = Some s \<Longrightarrow> Participants s \<noteq> [] \<and> distinct (Participants s)"
    and "Get (perform c m) k = Some s"
  shows "Participants s \<noteq> [] \<and> distinct (Participants s)"
proof (cases c)
  case (CallCreate now sid filePath initiator)
  with assms show ?thesis
    by (auto simp: Get_Create fst_Create split: if_splits)
next
  case (CallAddParticipant sid pid)
  with assms show ?thesis
    by (auto simp: Get_AddParticipant split: option.splits if_splits)
next
  case (CallRemoveParticipant sid pid)
  with assms show ?thesis
    by (auto simp: Get_RemoveParticipant split: option.splits if_splits)
qed

lemma fold_perform_inv:
  "(\<And>k s. Get m k = Some s \<Longrightarrow> Participants s \<noteq> [] \<and> distinct (Participants s)) \<Longrightarrow>
   Get (fold perform calls m) k = Some s \<Longrightarrow>
   Participants s \<noteq> [] \<and> distinct (Participants s)"
proof (induction calls arbitrary: m k s)
  case Nil
  then show ?case by simp
next
  case (Cons c calls)
  have "\<And>k s. Get (perform c m) k = Some s \<Longrightarrow>
      Participants s \<noteq> [] \<and> distinct (Participants s)"
    using Cons.prems(1) by (rule perform_inv)
  from Cons.IH [OF this] Cons.prems(2) show ?case by simp
qed

lemma after_inv:
  "Get (after calls) k = Some s \<Longrightarrow> Participants s \<noteq> [] \<and> distinct (Participants s)"
  unfolding after_def
  by (rule fold_perform_inv [of NewManager]) (simp_all add: Get_def NewManager_def)

lemma after_snoc: "after (calls @ [c]) = perform c (after calls)"
  by (simp add: after_def)

subsection \<open>The sessions behind pointers\<close>












text \<open>
  C9. Joining an unknown session is answered with 404 \<open>Session not found\<close> and the table is
  left exactly as it was. Joining a session that exists never fails; when the participant
  is already in the session the table is left exactly as it was; in every case the number
  of times the participant occurs in the list afterwards is the number before, or one when
  it was absent. After every history of calls on a new manager, the list of an existing
  session holds the participant exactly once after the join.
\<close>

theorem handleSessionJoin_spec:
  "(Get m sid = None \<longrightarrow>
      handleSessionJoin (Some (sid, pid)) m =
        (Response StatusNotFound (ErrorText ''Session not found''), m))
   \<and> (\<forall>s. Get m sid = Some s \<longrightarrow> pid \<in> set (Participants s) \<longrightarrow>
        handleSessionJoin (Some (sid, pid)) m =
          (Response StatusOK (Json [(''status'', ''joined'')]), m))
   \<and> (\<forall>s. Get m sid = Some s \<longrightarrow>
        fst (handleSessionJoin (Some (sid, pid)) m) = Response StatusOK (Json [(''status'', ''joined'')])
      \<and> (\<exists>s'. Get (snd (handleSessionJoin (Some (sid, pid)) m)) sid = Some s'
             \<and> count_list (Participants s') pid = max 1 (count_list (Participants s) pid)))
   \<and> (\<forall>s. Get (after calls) sid = Some s \<longrightarrow>
        (\<exists>s'. Get (snd (handleSessionJoin (Some (sid, pid)) (after calls))) sid = Some s'
             \<and> count_list (Participants s') pid = 1))"
proof -
  have snd_eq: "snd (handleSessionJoin (Some (sid, pid)) m) = snd (AddParticipant sid pid m)" for m
    by (simp add: handleSessionJoin_def split: prod.splits)
  have count: "\<exists>s'. Get (snd (handleSessionJoin (Some (sid, pid)) m)) sid = Some s'
             \<and> count_list (Participants s') pid = max 1 (count_list (Participants s) pid)"
    if g: "Get m sid = Some s" for m s
  proof (cases "pid \<in> set (Participants s)")
    case True
    then have "0 < count_list (Participants s) pid"
      using count_list_0_iff [of "Participants s" pid] by simp
    with True g show ?thesis
      by (auto simp: snd_eq Get_AddParticipant)
  next
    case False
    then have "count_list (Participants s) pid = 0" by (simp add: count_list_0_iff)
    with False g show ?thesis
      by (auto simp: snd_eq Get_AddParticipant)
  qed
  show ?thesis
  proof (intro conjI allI impI)
    assume "Get m sid = None"
    then show "handleSessionJoin (Some (sid, pid)) m =
          (Response StatusNotFound (ErrorText ''Session not found''), m)"
      by (simp add: handleSessionJoin_def AddParticipant_def Get_def)
  next
    fix s assume "Get m sid = Some s" "pid \<in> set (Participants s)"
    then show "handleSessionJoin (Some (sid, pid)) m =
            (Response StatusOK (Json [(''status'', ''joined'')]), m)"
      by (simp add: handleSessionJoin_def AddParticipant_def Get_def list_ex_iff)
  next
    fix s assume g: "Get m sid = Some s"
    then show "fst (handleSessionJoin (Some (sid, pid)) m) =
        Response StatusOK (Json [(''status'', ''joined'')])"
      by (simp add: handleSessionJoin_def AddParticipant_def Get_def list_ex_iff)
    from g show "\<exists>s'. Get (snd (handleSessionJoin (Some (sid, pid)) m)) sid = Some s'
             \<and> count_list (Participants s') pid = max 1 (count_list (Participants s) pid)"
      by (rule count)
  next
    fix s assume g: "Get (after calls) sid = Some s"
    then have d: "distinct (Participants s)" using after_inv by blast
    have "count_list (Participants s) pid \<le> 1"
    proof (cases "pid \<in> set (Participants s)")
      case True
      with d show ?thesis by (simp add: count_list_distinct)
    next
      case False
      then show ?thesis by (simp add: count_list_0_iff)
    qed
    with count [OF g]
    show "\<exists>s'. Get (snd (handleSessionJoin (Some (sid, pid)) (after calls))) sid = Some s'
             \<and> count_list (Participants s') pid = 1"
      by auto
  qed
qed

subsection \<open>Decimal printing is injective\<close>

lemma digit_char_inj:
  "a < 10 \<Longrightarrow> b < 10 \<Longrightarrow> digit_char a = digit_char b \<Longrightarrow> a = b"
proof -
  assume a: "a < 10" and b: "b < 10" and e: "digit_char a = digit_char b"
  have d: "distinct ''0123456789''" by simp
  have l: "length ''0123456789'' = 10" by simp
  from e have "''0123456789'' ! a = ''0123456789'' ! b" by (simp add: digit_char_def)
  with d a b l show "a = b" by (metis nth_eq_iff_index_eq)
qed

lemma digit_char_not_minus:
  "d < 10 \<Longrightarrow> digit_char d \<noteq> CHR ''-''"
proof -
  assume "d < 10"
  then have "digit_char d \<in> set ''0123456789''"
    unfolding digit_char_def by (intro nth_mem) simp
  then show ?thesis by auto
qed

lemma dec_nonempty: "dec n \<noteq> []"
  by (subst dec.simps) simp

lemma dec_no_minus: "CHR ''-'' \<notin> set (dec n)"
proof (induction n rule: dec.induct)
  case (1 n)
  show ?case
  proof (cases "n < 10")
    case True
    then show ?thesis using digit_char_not_minus [of n] by (subst dec.simps) auto
  next
    case False
    then have "n mod 10 < 10" by simp
    with False 1 show ?thesis
      using digit_char_not_minus [of "n mod 10"] by (subst dec.simps) auto
  qed
qed

lemma dec_inj: "dec n = dec k \<Longrightarrow> n = k"
proof (induction n arbitrary: k rule: dec.induct)
  case (1 n)
  show ?case
  proof (cases "n < 10")
    case n: True
    show ?thesis
    proof (cases "k < 10")
      case True
      with n 1(2) show ?thesis
        by (simp add: dec.simps [of n] dec.simps [of k] digit_char_inj)
    next
      case False
      with n 1(2) dec_nonempty [of "k div 10"] show ?thesis
        by (simp add: dec.simps [of n] dec.simps [of k])
    qed
  next
    case n: False
    show ?thesis
    proof (cases "k < 10")
      case True
      with n 1(2) dec_nonempty [of "n div 10"] show ?thesis
        by (simp add: dec.simps [of n] dec.simps [of k])
    next
      case False
      with n 1(2) have a: "dec (n div 10) = dec (k div 10)"
        and b: "digit_char (n mod 10) = digit_char (k mod 10)"
        by (simp_all add: dec.simps [of n] dec.simps [of k])
      from a n have "n div 10 = k div 10" by (rule 1(1) [rotated])
      moreover from b have "n mod 10 = k mod 10" by (intro digit_char_inj) simp_all
      ultimately show ?thesis by (metis div_mult_mod_eq)
    qed
  qed
qed

lemma show_int_inj: "show_int i = show_int j \<Longrightarrow> i = j"
proof -
  assume e: "show_int i = show_int j"
  have hd_neg: "\<And>n. hd (CHR ''-'' # dec n) = CHR ''-''" by simp
  have hd_pos: "\<And>n. hd (dec n) \<noteq> CHR ''-''"
    using dec_no_minus dec_nonempty by (metis hd_in_set)
  show "i = j"
  proof (cases "i < 0"; cases "j < 0")
    assume "i < 0" "j < 0"
    with e have "dec (nat (- i)) = dec (nat (- j))" by (simp add: show_int_def)
    then have "nat (- i) = nat (- j)" by (rule dec_inj)
    with \<open>i < 0\<close> \<open>j < 0\<close> show ?thesis by simp
  next
    assume "i < 0" "\<not> j < 0"
    with e have "CHR ''-'' # dec (nat (- i)) = dec (nat j)" by (simp add: show_int_def)
    with hd_neg hd_pos show ?thesis by metis
  next
    assume "\<not> i < 0" "j < 0"
    with e have "dec (nat i) = CHR ''-'' # dec (nat (- j))" by (simp add: show_int_def)
    with hd_neg hd_pos show ?thesis by metis
  next
    assume "\<not> i < 0" "\<not> j < 0"
    with e have "dec (nat i) = dec (nat j)" by (simp add: show_int_def)
    then have "nat i = nat j" by (rule dec_inj)
    with \<open>\<not> i < 0\<close> \<open>\<not> j < 0\<close> show ?thesis by simp
  qed
qed

subsection \<open>Creating sessions over HTTP\<close>

lemma sessionId_handleSessionCreate:
  "json_field ''sessionId'' (fst (handleSessionCreate httpPort n now (Some (filePath, initiator)) m)) =
     Some (''session-'' @ show_int (sint n))"
  by (simp add: handleSessionCreate_def Create_def Let_def)

lemma snd_handleSessionCreate:
  "snd (handleSessionCreate httpPort n now (Some (filePath, initiator)) m) =
     snd (Create now (''session-'' @ show_int (sint n)) filePath initiator m)"
  by (simp add: handleSessionCreate_def Create_def Let_def)

text \<open>
  C5, as the code has it. \<open>Create\<close> returns a session whose participants are exactly the
  initiator. \<open>handleSessionCreate\<close> prints the identifier from its reading of the clock in
  nanoseconds and stores the new session under it: two calls return the same identifier
  exactly when their readings are equal, so identifiers are distinct for calls that read
  different instants. After one call on the empty manager \<open>GetAll\<close> gives exactly one
  session, whose participants are exactly the initiator.
\<close>

theorem handleSessionCreate_spec:
  "Participants (fst (Create now sid filePath initiator m)) = [initiator]
   \<and> Get (snd (handleSessionCreate httpPort n now (Some (filePath, initiator)) m))
        (''session-'' @ show_int (sint n)) =
       Some \<lparr>Session.ID = ''session-'' @ show_int (sint n), FilePath = filePath,
             Participants = [initiator], Initiator = initiator, CreatedAt = now\<rparr>
   \<and> (json_field ''sessionId'' (fst (handleSessionCreate httpPort n now (Some (filePath, initiator)) m)) =
      json_field ''sessionId'' (fst (handleSessionCreate httpPort' n' now' (Some (filePath', initiator')) m'))
        \<longleftrightarrow> n = n')
   \<and> GetAll (snd (handleSessionCreate httpPort n now (Some (filePath, initiator)) NewManager)) =
       [\<lparr>Session.ID = ''session-'' @ show_int (sint n), FilePath = filePath,
         Participants = [initiator], Initiator = initiator, CreatedAt = now\<rparr>]"
proof (intro conjI)
  show "Participants (fst (Create now sid filePath initiator m)) = [initiator]"
    by (simp add: fst_Create)
  show "Get (snd (handleSessionCreate httpPort n now (Some (filePath, initiator)) m))
        (''session-'' @ show_int (sint n)) =
       Some \<lparr>Session.ID = ''session-'' @ show_int (sint n), FilePath = filePath,
             Participants = [initiator], Initiator = initiator, CreatedAt = now\<rparr>"
    by (simp add: snd_handleSessionCreate Get_Create fst_Create)
  show "json_field ''sessionId'' (fst (handleSessionCreate httpPort n now (Some (filePath, initiator)) m)) =
      json_field ''sessionId'' (fst (handleSessionCreate httpPort' n' now' (Some (filePath', initiator')) m'))
        \<longleftrightarrow> n = n'"
    using show_int_inj [of "sint n" "sint n'"] signed_word_eqI [of n n']
    by (auto simp: sessionId_handleSessionCreate)
  show "GetAll (snd (handleSessionCreate httpPort n now (Some (filePath, initiator)) NewManager)) =
       [\<lparr>Session.ID = ''session-'' @ show_int (sint n), FilePath = filePath,
         Participants = [initiator], Initiator = initiator, CreatedAt = now\<rparr>]"
    by (simp add: snd_handleSessionCreate Create_def Let_def GetAll_def map_values_def
        NewManager_def DAList.update.rep_eq DAList.empty.rep_eq)
qed

theorem handleSessionCreate_spec_witness:
  "json_field ''sessionId'' (fst (handleSessionCreate 8080 1700000000000000000 0
       (Some (''src/app.ts'', ''alice'')) NewManager)) \<noteq>
   json_field ''sessionId'' (fst (handleSessionCreate 8080 1700000000000000001 0
       (Some (''src/app.ts'', ''alice'')) NewManager))
   \<and> GetAll (snd (handleSessionCreate 8080 1700000000000000000 0
       (Some (''src/app.ts'', ''alice'')) NewManager)) =
     [\<lparr>Session.ID = ''session-1700000000000000000'', FilePath = ''src/app.ts'',
       Participants = [''alice''], Initiator = ''alice'', CreatedAt = 0\<rparr>]"
proof -
  have s: "show_int (sint (1700000000000000000 :: 64 word)) = ''1700000000000000000''"
    by (simp add: show_int_def) (simp add: dec.simps digit_char_def)
  have n: "(1700000000000000000 :: 64 word) \<noteq> 1700000000000000001" by simp
  from handleSessionCreate_spec [of 0 "''x''" "''src/app.ts''" "''alice''" NewManager 8080
      1700000000000000000 8080 1700000000000000001 0 "''src/app.ts''" "''alice''" NewManager] n s
  show ?thesis by simp
qed

text \<open>
  The claim as stated fails for two calls that read the same instant: both return the same
  identifier, and the second session replaces the first.
\<close>

theorem same_instant_counterexample:
  "json_field ''sessionId'' (fst (handleSessionCreate 8080 1700000000000000000 0
       (Some (''src/app.ts'', ''alice'')) NewManager)) = Some ''session-1700000000000000000''
   \<and> json_field ''sessionId'' (fst (handleSessionCreate 8080 1700000000000000000 1
       (Some (''lib/util.ts'', ''bob''))
       (snd (handleSessionCreate 8080 1700000000000000000 0
          (Some (''src/app.ts'', ''alice'')) NewManager)))) = Some ''session-1700000000000000000''
   \<and> GetAll (snd (handleSessionCreate 8080 1700000000000000000 1
       (Some (''lib/util.ts'', ''bob''))
       (snd (handleSessionCreate 8080 1700000000000000000 0
          (Some (''src/app.ts'', ''alice'')) NewManager)))) =
     [\<lparr>Session.ID = ''session-1700000000000000000'', FilePath = ''lib/util.ts'',
       Participants = [''bob''], Initiator = ''bob'', CreatedAt = 1\<rparr>]"
proof -
  have s: "show_int 1700000000000000000 = ''1700000000000000000''"
    by (simp add: show_int_def) (simp add: dec.simps digit_char_def)
  show ?thesis
    by (simp add: sessionId_handleSessionCreate snd_handleSessionCreate s Create_def Let_def
        GetAll_def map_values_def NewManager_def DAList.update.rep_eq DAList.empty.rep_eq)
qed

theorem handleSessionJoin_spec_witness:
  "Get NewManager ''session-7'' = None
   \<and> handleSessionJoin (Some (''session-7'', ''bob'')) NewManager =
       (Response StatusNotFound (ErrorText ''Session not found''), NewManager)
   \<and> Get (after [CallCreate 0 ''S1'' ''src/app.ts'' ''alice'']) ''S1'' =
       Some \<lparr>Session.ID = ''S1'', FilePath = ''src/app.ts'', Participants = [''alice''],
             Initiator = ''alice'', CreatedAt = 0\<rparr>
   \<and> handleSessionJoin (Some (''S1'', ''alice'')) (after [CallCreate 0 ''S1'' ''src/app.ts'' ''alice'']) =
       (Response StatusOK (Json [(''status'', ''joined'')]),
        after [CallCreate 0 ''S1'' ''src/app.ts'' ''alice''])
   \<and> (\<exists>s'. Get (snd (handleSessionJoin (Some (''S1'', ''alice''))
                (after [CallCreate 0 ''S1'' ''src/app.ts'' ''alice'']))) ''S1'' = Some s'
          \<and> count_list (Participants s') ''alice'' = 1)"
proof -
  have u: "Get NewManager ''session-7'' = None" by (simp add: Get_def NewManager_def)
  have g: "Get (after [CallCreate 0 ''S1'' ''src/app.ts'' ''alice'']) ''S1'' =
       Some \<lparr>Session.ID = ''S1'', FilePath = ''src/app.ts'', Participants = [''alice''],
             Initiator = ''alice'', CreatedAt = 0\<rparr>"
    by (simp add: after_def Get_Create fst_Create)
  from handleSessionJoin_spec [of NewManager "''session-7''" "''bob''"]
    handleSessionJoin_spec [of "after [CallCreate 0 ''S1'' ''src/app.ts'' ''alice'']" "''S1''"
      "''alice''" "[CallCreate 0 ''S1'' ''src/app.ts'' ''alice'']"]
    u g
  show ?thesis by auto
qed

section \<open>The peer registry\<close>

lemma in_impl_of_iff:
  "(k, v) \<in> set (DAList.impl_of m) \<longleftrightarrow> DAList.lookup m k = Some v"
  by (simp add: DAList.lookup.rep_eq)

lemma lookup_Cleanup_step:
  "DAList.lookup (Cleanup_step now ttl e r) k =
     (if k = fst e \<and> ttl < time_Sub now (LastSeen (snd e)) then None else DAList.lookup r k)"
  by (simp add: Cleanup_step_def)

lemma lookup_fold_Cleanup_step:
  "DAList.lookup (fold (Cleanup_step now ttl) xs r) k =
     (if \<exists>p. (k, p) \<in> set xs \<and> ttl < time_Sub now (LastSeen p) then None
      else DAList.lookup r k)"
proof (induction xs arbitrary: r)
  case Nil
  show ?case by simp
next
  case (Cons e xs)
  show ?case
    by (cases e) (auto simp: Cons.IH lookup_Cleanup_step)
qed

lemma Registry_Get_Cleanup:
  "Registry_Get (Cleanup now ttl r) k =
     (case Registry_Get r k of
        None \<Rightarrow> None
      | Some p \<Rightarrow> if ttl < time_Sub now (LastSeen p) then None else Some p)"
  by (auto simp: Registry_Get_def Cleanup_def lookup_fold_Cleanup_step in_impl_of_iff
      split: option.splits)

lemma Registry_Get_Add:
  "Registry_Get (Add now peer r) k =
     (if k = Peer.ID peer then Some (peer\<lparr>LastSeen := now\<rparr>) else Registry_Get r k)"
  by (simp add: Registry_Get_def Add_def)

text \<open>
  C3, as the code has it. The age of an entry is \<open>now.Sub(peer.LastSeen)\<close> (the plain
  difference of the two instants whenever that fits a \<open>Duration\<close>). After \<open>Cleanup\<close> an
  identifier is absent exactly when it was absent before or the age of its entry is
  strictly greater than the timeout; every entry whose age is at most the timeout, the age
  equal to the timeout included, is still stored, unchanged. In particular a peer added at
  \<open>t\<close> and not added again is absent after the next \<open>Cleanup\<close> exactly when more than the
  timeout has passed since \<open>t\<close>.
\<close>

theorem Cleanup_removes_exactly_older:
  "(Registry_Get (Cleanup now ttl r) pid = None \<longleftrightarrow>
      Registry_Get r pid = None \<or>
      (\<exists>p. Registry_Get r pid = Some p \<and> ttl < time_Sub now (LastSeen p)))
   \<and> (\<forall>p. Registry_Get r pid = Some p \<longrightarrow> time_Sub now (LastSeen p) \<le> ttl \<longrightarrow>
         Registry_Get (Cleanup now ttl r) pid = Some p)
   \<and> Registry_Get (Cleanup now ttl (Add t peer r)) (Peer.ID peer) =
       (if ttl < time_Sub now t then None else Some (peer\<lparr>LastSeen := t\<rparr>))
   \<and> (minDuration \<le> now - t \<longrightarrow> now - t \<le> maxDuration \<longrightarrow> time_Sub now t = now - t)"
  by (auto simp: Registry_Get_Cleanup Registry_Get_Add time_Sub_def Let_def split: option.splits)

theorem Cleanup_removes_exactly_older_witness:
  "Registry_Get (Add 0 (mockPeer 7) NewRegistry) ''mock-peer-1'' = Some (mockPeer 0)
   \<and> time_Sub (5 * Minute) (LastSeen (mockPeer 0)) \<le> 5 * Minute
   \<and> Registry_Get (Cleanup (5 * Minute) (5 * Minute) (Add 0 (mockPeer 7) NewRegistry)) ''mock-peer-1'' =
       Some (mockPeer 0)
   \<and> Registry_Get (Cleanup (5 * Minute + 1) (5 * Minute) (Add 0 (mockPeer 7) NewRegistry)) ''mock-peer-1'' =
       None
   \<and> minDuration \<le> 5 * Minute - 0 \<and> 5 * Minute - 0 \<le> maxDuration
   \<and> time_Sub (5 * Minute) 0 = 5 * Minute"
proof -
  have g: "Registry_Get (Add 0 (mockPeer 7) NewRegistry) ''mock-peer-1'' = Some (mockPeer 0)"
    by (simp add: Registry_Get_Add mockPeer_def)
  have a: "time_Sub (5 * Minute) (LastSeen (mockPeer 0)) \<le> 5 * Minute"
    by (simp add: time_Sub_def mockPeer_def Minute_def maxDuration_def minDuration_def)
  have b: "5 * Minute < time_Sub (5 * Minute + 1) 0"
    by (simp add: time_Sub_def Minute_def maxDuration_def minDuration_def)
  have c: "minDuration \<le> 5 * Minute - 0 \<and> 5 * Minute - 0 \<le> maxDuration"
    by (simp add: Minute_def maxDuration_def minDuration_def)
  have i: "Peer.ID (mockPeer 7) = ''mock-peer-1''" by (simp add: mockPeer_def)
  from Cleanup_removes_exactly_older [where now = "5 * Minute" and ttl = "5 * Minute"
      and r = "Add 0 (mockPeer 7) NewRegistry" and pid = "''mock-peer-1''" and t = 0
      and peer = "mockPeer 7"]
    Cleanup_removes_exactly_older [where now = "5 * Minute + 1" and ttl = "5 * Minute"
      and r = "Add 0 (mockPeer 7) NewRegistry" and pid = "''mock-peer-1''" and t = 0
      and peer = "mockPeer 7"]
    g a b c i
  show ?thesis by (simp add: mockPeer_def)
qed

text \<open>
  The claim as stated fails at the boundary: an entry whose age equals the timeout (here
  five minutes, the timeout of the discovery loop) survives \<open>Cleanup\<close>.
\<close>

theorem age_equal_ttl_counterexample:
  "time_Sub (5 * Minute) 0 = 5 * Minute
   \<and> Registry_Get (Add 0 (mockPeer 0) NewRegistry) ''mock-peer-1'' = Some (mockPeer 0)
   \<and> Registry_Get (Cleanup (5 * Minute) (5 * Minute) (Add 0 (mockPeer 0) NewRegistry)) ''mock-peer-1''
      = Some (mockPeer 0)"
  by (simp add: Registry_Get_Cleanup Registry_Get_Add mockPeer_def time_Sub_def Minute_def
      maxDuration_def minDuration_def)

text \<open>
  C8. Whatever \<open>LastSeen\<close> the peer given to \<open>Add\<close> carries, the entry stored under its
  identifier carries the reading of the clock that \<open>Add\<close> took itself: the registry after
  the call does not depend on the timestamp supplied (so the reading of
  \<open>handleAddMockPeer\<close> is never stored). A later \<open>Add\<close> of the same identifier replaces the
  stored timestamp by its own reading, which is not earlier when the clock has not gone back.
\<close>

theorem Add_stamps_LastSeen:
  "Registry_Get (Add now peer r) (Peer.ID peer) = Some (peer\<lparr>LastSeen := now\<rparr>)
   \<and> Add now (peer\<lparr>LastSeen := supplied\<rparr>) r = Add now peer r
   \<and> Registry_Get (handleAddMockPeer tHandler now r) ''mock-peer-1'' = Some (mockPeer now)
   \<and> (Peer.ID peer' = Peer.ID peer \<longrightarrow>
        (\<exists>q q'. Registry_Get (Add now peer r) (Peer.ID peer) = Some q
           \<and> Registry_Get (Add now' peer' (Add now peer r)) (Peer.ID peer) = Some q'
           \<and> q = peer\<lparr>LastSeen := now\<rparr> \<and> q' = peer'\<lparr>LastSeen := now'\<rparr>
           \<and> (now \<le> now' \<longrightarrow> LastSeen q \<le> LastSeen q')))"
proof (intro conjI impI)
  show "Add now (peer\<lparr>LastSeen := supplied\<rparr>) r = Add now peer r"
    by (simp add: Add_def)
  show "Registry_Get (handleAddMockPeer tHandler now r) ''mock-peer-1'' = Some (mockPeer now)"
    by (simp add: handleAddMockPeer_def Registry_Get_Add) (simp add: mockPeer_def)
qed (auto simp: Registry_Get_Add)

theorem Add_stamps_LastSeen_witness:
  "Peer.ID (mockPeer 3) = Peer.ID (mockPeer 99) \<and> (5 :: time) \<le> 9
   \<and> Registry_Get (Add 5 (mockPeer 99) NewRegistry) ''mock-peer-1'' = Some (mockPeer 5)
   \<and> Registry_Get (Add 9 (mockPeer 3) (Add 5 (mockPeer 99) NewRegistry)) ''mock-peer-1'' =
       Some (mockPeer 9)"
proof -
  have i: "Peer.ID (mockPeer 3) = Peer.ID (mockPeer 99)" by (simp add: mockPeer_def)
  have j: "Peer.ID (mockPeer 99) = ''mock-peer-1''" by (simp add: mockPeer_def)
  have k: "(mockPeer 99)\<lparr>LastSeen := 5\<rparr> = mockPeer 5" "(mockPeer 3)\<lparr>LastSeen := 9\<rparr> = mockPeer 9"
    by (simp_all add: mockPeer_def)
  from Add_stamps_LastSeen [where now = 5 and now' = 9 and peer = "mockPeer 99"
      and peer' = "mockPeer 3" and r = NewRegistry] i j k
  show ?thesis by auto
qed

section \<open>Discovery\<close>

lemma isSelf_iff:
  "isSelf s (Some e) \<longleftrightarrow>
     ServiceEntry.Port e = port s \<and> Instance e = deviceName s \<and>
     ((\<exists>a \<in> set (AddrIPv4 e). a \<in> localIPv4 s) \<or> (\<exists>a \<in> set (AddrIPv6 e). a \<in> localIPv6 s))"
  by (auto simp: isSelf_def list_ex_iff)

lemma consumeEntry_self:
  "isSelf s (fst a) \<Longrightarrow> consumeEntry TrimSpace s a r = r"
  by (simp add: consumeEntry_def)

lemma consumeEntries_filter:
  "consumeEntries TrimSpace s entries r =
     consumeEntries TrimSpace s (filter (\<lambda>a. \<not> isSelf s (fst a)) entries) r"
  unfolding consumeEntries_def
  by (induction entries arbitrary: r) (simp_all add: consumeEntry_self)

text \<open>
  C7, as the code has it. \<open>isSelf\<close> holds of a record exactly when its port and its instance name are those of
  this service and one of its addresses is in the current local address set, addresses
  being compared within their family (the IPv4 addresses of the record with the local IPv4
  addresses, the IPv6 addresses with the local IPv6 addresses: the record's addresses meet
  the local addresses as sets of addresses tagged with their family); a \<open>nil\<close> record is
  not self.
  A record that is self leaves the registry as it is when the consumer handles it, and
  the registry after a browse, and after a whole turn of the discovery loop with its
  refreshed local addresses, is the one obtained with all self records left out.
\<close>

theorem isSelf_spec:
  "(isSelf s (Some e) \<longleftrightarrow>
      ServiceEntry.Port e = port s \<and> Instance e = deviceName s \<and>
      ((\<exists>a \<in> set (AddrIPv4 e). a \<in> localIPv4 s) \<or> (\<exists>a \<in> set (AddrIPv6 e). a \<in> localIPv6 s)))
   \<and> (isSelf s (Some e) \<longleftrightarrow>
      ServiceEntry.Port e = port s \<and> Instance e = deviceName s \<and>
      (Inl ` set (AddrIPv4 e) \<union> Inr ` set (AddrIPv6 e)) \<inter>
        (Inl ` localIPv4 s \<union> Inr ` localIPv6 s) \<noteq> ({} :: (string + string) set))
   \<and> \<not> isSelf s None
   \<and> (isSelf s (Some e) \<longrightarrow> consumeEntry TrimSpace s (Some e, tBuild, tAdd) r = r)
   \<and> consumeEntries TrimSpace s entries r =
       consumeEntries TrimSpace s (filter (\<lambda>a. \<not> isSelf s (fst a)) entries) r
   \<and> discoveryCycle TrimSpace ifaces entries tCleanup (s, r) =
       discoveryCycle TrimSpace ifaces
         (filter (\<lambda>a. \<not> isSelf (updateLocalAddrs ifaces s) (fst a)) entries) tCleanup (s, r)"
proof (intro conjI impI)
  show "isSelf s (Some e) \<longleftrightarrow>
      ServiceEntry.Port e = port s \<and> Instance e = deviceName s \<and>
      ((\<exists>a \<in> set (AddrIPv4 e). a \<in> localIPv4 s) \<or> (\<exists>a \<in> set (AddrIPv6 e). a \<in> localIPv6 s))"
    by (rule isSelf_iff)
  show "isSelf s (Some e) \<longleftrightarrow>
      ServiceEntry.Port e = port s \<and> Instance e = deviceName s \<and>
      (Inl ` set (AddrIPv4 e) \<union> Inr ` set (AddrIPv6 e)) \<inter>
        (Inl ` localIPv4 s \<union> Inr ` localIPv6 s) \<noteq> ({} :: (string + string) set)"
    unfolding isSelf_iff by blast
  show "\<not> isSelf s None" by (simp add: isSelf_def)
  show "consumeEntry TrimSpace s (Some e, tBuild, tAdd) r = r" if "isSelf s (Some e)"
    using that by (simp add: consumeEntry_self)
  show "consumeEntries TrimSpace s entries r =
       consumeEntries TrimSpace s (filter (\<lambda>a. \<not> isSelf s (fst a)) entries) r"
    by (rule consumeEntries_filter)
  show "discoveryCycle TrimSpace ifaces entries tCleanup (s, r) =
       discoveryCycle TrimSpace ifaces
         (filter (\<lambda>a. \<not> isSelf (updateLocalAddrs ifaces s) (fst a)) entries) tCleanup (s, r)"
    using consumeEntries_filter [of TrimSpace "updateLocalAddrs ifaces s" entries r]
    by (simp add: discoveryCycle_def Let_def)
qed

theorem isSelf_spec_witness:
  "isSelf \<lparr>deviceName = ''zeropr-agent-dev'', port = 8080, broadcasting = True,
           localIPv4 = {''192.168.1.20''}, localIPv6 = {}\<rparr>
     (Some \<lparr>Instance = ''zeropr-agent-dev'', ServiceEntry.Port = 8080,
            Text = [''version=0.1.0''], AddrIPv4 = [''192.168.1.20''], AddrIPv6 = []\<rparr>)
   \<and> consumeEntry (\<lambda>x. x)
        \<lparr>deviceName = ''zeropr-agent-dev'', port = 8080, broadcasting = True,
          localIPv4 = {''192.168.1.20''}, localIPv6 = {}\<rparr>
        (Some \<lparr>Instance = ''zeropr-agent-dev'', ServiceEntry.Port = 8080,
               Text = [''version=0.1.0''], AddrIPv4 = [''192.168.1.20''], AddrIPv6 = []\<rparr>, 1, 2)
        NewRegistry = NewRegistry
   \<and> \<not> isSelf \<lparr>deviceName = ''zeropr-agent-dev'', port = 8080, broadcasting = True,
           localIPv4 = {''192.168.1.20''}, localIPv6 = {}\<rparr>
     (Some \<lparr>Instance = ''zeropr-agent-dev'', ServiceEntry.Port = 8080,
            Text = [''version=0.1.0''], AddrIPv4 = [''192.168.1.31''], AddrIPv6 = []\<rparr>)"
proof -
  have a: "\<exists>a \<in> set [''192.168.1.20'']. a \<in> {''192.168.1.20''}" by simp
  have b: "\<not> (\<exists>a \<in> set [''192.168.1.31'']. a \<in> {''192.168.1.20''})" by simp
  from isSelf_spec [where s = "\<lparr>deviceName = ''zeropr-agent-dev'', port = 8080, broadcasting = True,
           localIPv4 = {''192.168.1.20''}, localIPv6 = {}\<rparr>"
      and e = "\<lparr>Instance = ''zeropr-agent-dev'', ServiceEntry.Port = 8080,
            Text = [''version=0.1.0''], AddrIPv4 = [''192.168.1.20''], AddrIPv6 = []\<rparr>"
      and TrimSpace = "\<lambda>x. x" and tBuild = 1 and tAdd = 2 and r = NewRegistry]
    isSelf_spec [where s = "\<lparr>deviceName = ''zeropr-agent-dev'', port = 8080, broadcasting = True,
           localIPv4 = {''192.168.1.20''}, localIPv6 = {}\<rparr>"
      and e = "\<lparr>Instance = ''zeropr-agent-dev'', ServiceEntry.Port = 8080,
            Text = [''version=0.1.0''], AddrIPv4 = [''192.168.1.31''], AddrIPv6 = []\<rparr>"]
    a b
  show ?thesis by simp
qed

text \<open>
  The claim as stated fails across the families: a record with this service's name and
  port whose only address is in the IPv6 list and prints as a local IPv4 address (an
  IPv4-mapped address) is not self, and the consumer adds it to the registry.
\<close>

theorem mapped_address_counterexample:
  "Instance \<lparr>Instance = ''zeropr-agent-dev'', ServiceEntry.Port = 8080,
             Text = [''version=0.1.0''], AddrIPv4 = [], AddrIPv6 = [''192.168.1.20'']\<rparr> =
     deviceName \<lparr>deviceName = ''zeropr-agent-dev'', port = 8080, broadcasting = True,
                 localIPv4 = {''192.168.1.20''}, localIPv6 = {}\<rparr>
   \<and> ServiceEntry.Port \<lparr>Instance = ''zeropr-agent-dev'', ServiceEntry.Port = 8080,
             Text = [''version=0.1.0''], AddrIPv4 = [], AddrIPv6 = [''192.168.1.20'']\<rparr> =
     port \<lparr>deviceName = ''zeropr-agent-dev'', port = 8080, broadcasting = True,
            localIPv4 = {''192.168.1.20''}, localIPv6 = {}\<rparr>
   \<and> ''192.168.1.20'' \<in> set (AddrIPv6 \<lparr>Instance = ''zeropr-agent-dev'', ServiceEntry.Port = 8080,
             Text = [''version=0.1.0''], AddrIPv4 = [], AddrIPv6 = [''192.168.1.20'']\<rparr>)
   \<and> ''192.168.1.20'' \<in> localIPv4 \<lparr>deviceName = ''zeropr-agent-dev'', port = 8080,
             broadcasting = True, localIPv4 = {''192.168.1.20''}, localIPv6 = {}\<rparr>
   \<and> \<not> isSelf \<lparr>deviceName = ''zeropr-agent-dev'', port = 8080, broadcasting = True,
                localIPv4 = {''192.168.1.20''}, localIPv6 = {}\<rparr>
        (Some \<lparr>Instance = ''zeropr-agent-dev'', ServiceEntry.Port = 8080,
               Text = [''version=0.1.0''], AddrIPv4 = [], AddrIPv6 = [''192.168.1.20'']\<rparr>)
   \<and> Registry_Get
        (consumeEntry (\<lambda>x. x)
           \<lparr>deviceName = ''zeropr-agent-dev'', port = 8080, broadcasting = True,
             localIPv4 = {''192.168.1.20''}, localIPv6 = {}\<rparr>
           (Some \<lparr>Instance = ''zeropr-agent-dev'', ServiceEntry.Port = 8080,
                  Text = [''version=0.1.0''], AddrIPv4 = [], AddrIPv6 = [''192.168.1.20'']\<rparr>, 1, 2)
           NewRegistry)
        ''zeropr-agent-dev@192.168.1.20:8080'' =
       Some \<lparr>Peer.ID = ''zeropr-agent-dev@192.168.1.20:8080'', Name = ''zeropr-agent-dev'',
              Address = ''192.168.1.20'', Peer.Port = 8080, RepoHash = [], Branch = [],
              ActiveFile = [], Status = ''idle'', LastSeen = 2, Trusted = False\<rparr>"
proof -
  have p: "show_int 8080 = ''8080''"
    by (simp add: show_int_def) (simp add: dec.simps digit_char_def)
  have t: "parseTXT (\<lambda>x. x) [''version=0.1.0''] = [''version'' \<mapsto> ''0.1.0'']"
    by (simp add: parseTXT_def parseTXT_step_def IndexByte_def Let_def)
  show ?thesis
    by (simp add: isSelf_def consumeEntry_def buildPeer_def Let_def p t txt_get_def
        Registry_Get_Add)
qed

section \<open>Presence\<close>

text \<open>
  C2, as the code has it. With \<open>t\<close> the milliseconds elapsed since the last activity, the
  status computed is Editing iff \<open>t \<le> 30000\<close>, Idle iff \<open>30000 < t \<le> 300000\<close> and Away iff
  \<open>300000 < t\<close>: both comparisons of the code are strict, so the status at exactly thirty
  seconds is still Editing and at exactly three hundred seconds still Idle.
\<close>

theorem updateStatus_thresholds:
  "(currentStatus (updateStatus now pm) = Editing \<longleftrightarrow> now - lastActivity pm \<le> 30000)
   \<and> (currentStatus (updateStatus now pm) = Idle \<longleftrightarrow>
        30000 < now - lastActivity pm \<and> now - lastActivity pm \<le> 300000)
   \<and> (currentStatus (updateStatus now pm) = Away \<longleftrightarrow> 300000 < now - lastActivity pm)"
  by (auto simp: updateStatus_def idleThreshold_def awayThreshold_def Let_def)

text \<open>The claim as stated fails at both boundaries.\<close>

theorem boundary_counterexample:
  "currentStatus (updateStatus 30000
      \<lparr>currentFile = None, currentCursor = None, currentStatus = Idle, lastActivity = 0\<rparr>) = Editing
   \<and> currentStatus (updateStatus 300000
      \<lparr>currentFile = None, currentCursor = None, currentStatus = Idle, lastActivity = 0\<rparr>) = Idle"
  by (simp add: updateStatus_def idleThreshold_def awayThreshold_def Let_def)

section \<open>The relay\<close>

text \<open>
  C1. The scenario of the specification: session \<open>S1\<close> created by alice and joined by bob,
  connection 0 (alice) and connection 1 (bob) open on it, connection 0 sends the bytes
  1, 2, 3 in a binary frame. The handler writes the frame back to connection 0 and to
  nobody else: the sender receives its own message and the other connection receives
  nothing.
\<close>

theorem handleYjsSync_echoes_to_sender:
  "handleYjsSync
      (snd (AddParticipant ''S1'' ''bob'' (snd (Create 0 ''S1'' ''src/app.ts'' ''alice'' NewManager))))
      ''S1'' True 0 [Frame 2 [1, 2, 3] True] = Inr [(0, 2, [1, 2, 3])]
   \<and> received 0 [(0, 2, [1, 2, 3])] = [[1, 2, 3]]
   \<and> received 1 [(0, 2, [1, 2, 3])] = []"
  by (simp add: handleYjsSync_def Get_AddParticipant Get_Create fst_Create received_def)

end
